theory Spec2Isabelle
  imports
    Main
    "HOL-Library.Word"
    "HOL-Library.Char_ord"
    "HOL-Library.List_Lexorder"
    "HOL-Library.Multiset"
begin

section \<open>Instance helpers of the Scaleway provider: the model\<close>

text \<open>
  The theory embeds \<^verbatim>\<open>scaleway/helpers_instance.go\<close>. Conventions of the embedding:
  \<^item> a Go string is a \<^typ>\<open>string\<close>; the SDK's string-typed enumerations
    (\<^verbatim>\<open>instance.ServerState\<close>, \<^verbatim>\<open>instance.ServerAction\<close>, ...) are strings too, and
    each SDK constant the source names is a definition holding the SDK's value;
  \<^item> a function returning \<^verbatim>\<open>(T, error)\<close> returns \<open>error + T\<close> (\<open>Inl\<close> the error),
    a function returning \<^verbatim>\<open>error\<close> returns \<open>error option\<close> (\<open>None\<close> is \<^verbatim>\<open>nil\<close>);
  \<^item> a pointer the code compares with \<^verbatim>\<open>nil\<close> is an \<open>option\<close>; a pointer to a struct
    that the code dereferences without a test is the struct;
  \<^item> a Go map that the code ranges over is the list of its entries in the order of
    that iteration, with distinct keys: Go leaves the order open, so a statement
    about every such list is a statement about every iteration order;
  \<^item> a call into the SDK's instance API appends one entry to a log of calls, and the
    API's answer is a function of the log so far and of the request.
\<close>

subsection \<open>Constants of the package\<close>

type_synonym Duration = int \<comment> \<open>\<^verbatim>\<open>time.Duration\<close>, in nanoseconds\<close>

definition Second :: Duration where
  "Second = 1000000000"

definition Minute :: Duration where
  "Minute = 60 * Second"

definition InstanceServerStateStopped :: string where
  "InstanceServerStateStopped = ''stopped''"

definition InstanceServerStateStarted :: string where
  "InstanceServerStateStarted = ''started''"

definition InstanceServerStateStandby :: string where
  "InstanceServerStateStandby = ''standby''"

definition defaultInstanceServerWaitTimeout :: Duration where
  "defaultInstanceServerWaitTimeout = 10 * Minute"

definition defaultInstanceRetryInterval :: Duration where
  "defaultInstanceRetryInterval = 5 * Second"

subsection \<open>Enumerations of the SDK\<close>

type_synonym ServerState = string

definition ServerStateRunning :: ServerState where
  "ServerStateRunning = ''running''"

definition ServerStateStopped :: ServerState where
  "ServerStateStopped = ''stopped''"

definition ServerStateStoppedInPlace :: ServerState where
  "ServerStateStoppedInPlace = ''stopped in place''"

definition ServerStateLocked :: ServerState where
  "ServerStateLocked = ''locked''"

type_synonym ServerAction = string

definition ServerActionPoweron :: ServerAction where
  "ServerActionPoweron = ''poweron''"

definition ServerActionPoweroff :: ServerAction where
  "ServerActionPoweroff = ''poweroff''"

definition ServerActionStopInPlace :: ServerAction where
  "ServerActionStopInPlace = ''stop_in_place''"

type_synonym VolumeServerState = string

definition VolumeServerStateAvailable :: VolumeServerState where
  "VolumeServerStateAvailable = ''available''"

type_synonym VolumeVolumeType = string

definition VolumeVolumeTypeLSSD :: VolumeVolumeType where
  "VolumeVolumeTypeLSSD = ''l_ssd''"

subsection \<open>Errors\<close>

record InvalidArgumentsErrorDetail =
  ArgumentName :: string
  Reason :: string
  HelpMessage :: string

text \<open>
  A Go \<^verbatim>\<open>error\<close> value: a plain message (\<^verbatim>\<open>fmt.Errorf\<close> without \<^verbatim>\<open>%w\<close>, or any
  error of the SDK that is not listed here), the SDK's \<^verbatim>\<open>*scw.InvalidArgumentsError\<close>
  with its details, an error wrapping another one (it has an \<^verbatim>\<open>Unwrap\<close> method),
  and the error of \<^verbatim>\<open>reachState\<close>, kept with its three arguments (to-state, from-state,
  server ID) instead of the formatted message.
\<close>

datatype error =
    ErrorString string
  | InvalidArgumentsError "InvalidArgumentsErrorDetail list"
  | WrapError string error
  | ReachStateError ServerState ServerState string

subsection \<open>Translation of the server state\<close>

definition serverStateFlatten :: "ServerState \<Rightarrow> error + string" where
  "serverStateFlatten fromState =
     (if fromState = ServerStateStopped then Inr InstanceServerStateStopped
      else if fromState = ServerStateStoppedInPlace then Inr InstanceServerStateStandby
      else if fromState = ServerStateRunning then Inr InstanceServerStateStarted
      else if fromState = ServerStateLocked then
        Inl (ErrorString ''server is locked, please contact Scaleway support: https://console.scaleway.com/support/tickets'')
      else
        Inl (ErrorString ''server is in an invalid state, someone else might be executing action at the same time''))"

definition serverStateExpand :: "string \<Rightarrow> error + ServerState" where
  "serverStateExpand rawState =
     (case map_of
        [(InstanceServerStateStopped, ServerStateStopped),
         (InstanceServerStateStandby, ServerStateStoppedInPlace),
         (InstanceServerStateStarted, ServerStateRunning)] rawState of
        None \<Rightarrow>
          Inl (ErrorString ''server is in a transient state, someone else might be executing another action at the same time'')
      | Some apiState \<Rightarrow> Inr apiState)"

section \<open>Properties\<close>

lemmas state_consts =
  InstanceServerStateStopped_def InstanceServerStateStarted_def InstanceServerStateStandby_def
  ServerStateRunning_def ServerStateStopped_def ServerStateStoppedInPlace_def
  ServerStateLocked_def

subsection \<open>State translation\<close>

text \<open>
  C2. The translation is a round trip on the three translatable states: flattening
  one of the API states Stopped, StoppedInPlace, Running succeeds and expanding the
  result gives the state back; expanding one of the terraform states "stopped",
  "standby", "started" succeeds and flattening the result gives the string back.
\<close>

theorem serverState_round_trip:
  "(s \<in> {ServerStateStopped, ServerStateStoppedInPlace, ServerStateRunning} \<longrightarrow>
      (\<exists>t. serverStateFlatten s = Inr t \<and> serverStateExpand t = Inr s)) \<and>
   (t \<in> {InstanceServerStateStopped, InstanceServerStateStandby, InstanceServerStateStarted} \<longrightarrow>
      (\<exists>s. serverStateExpand t = Inr s \<and> serverStateFlatten s = Inr t))"
  by (auto simp: serverStateFlatten_def serverStateExpand_def state_consts)

theorem serverState_round_trip_witness:
  "(\<exists>t. serverStateFlatten ''stopped in place'' = Inr t \<and>
        serverStateExpand t = Inr ''stopped in place'') \<and>
   (\<exists>s. serverStateExpand ''started'' = Inr s \<and> serverStateFlatten s = Inr ''started'')"
  using serverState_round_trip [of "''stopped in place''" "''started''"]
  by (simp add: state_consts)

text \<open>
  C4. \<^const>\<open>serverStateFlatten\<close> fails exactly on the API states other than Stopped,
  StoppedInPlace and Running; the Locked state is one of them, and its failure
  carries no terraform state. \<^const>\<open>serverStateExpand\<close> fails exactly on the strings
  other than "stopped", "standby" and "started".
\<close>

theorem serverState_errors:
  "((\<exists>e. serverStateFlatten s = Inl e) \<longleftrightarrow>
      s \<notin> {ServerStateStopped, ServerStateStoppedInPlace, ServerStateRunning}) \<and>
   (\<exists>e. serverStateFlatten ServerStateLocked = Inl e) \<and>
   ((\<exists>e. serverStateExpand t = Inl e) \<longleftrightarrow>
      t \<notin> {InstanceServerStateStopped, InstanceServerStateStandby, InstanceServerStateStarted})"
  by (auto simp: serverStateFlatten_def serverStateExpand_def state_consts)

theorem serverState_errors_witness:
  "(\<exists>e. serverStateFlatten ''starting'' = Inl e) \<and>
   \<not> (\<exists>e. serverStateFlatten ''running'' = Inl e) \<and>
   (\<exists>e. serverStateFlatten ''locked'' = Inl e) \<and>
   (\<exists>e. serverStateExpand ''running'' = Inl e) \<and>
   \<not> (\<exists>e. serverStateExpand ''standby'' = Inl e)"
  using serverState_errors [of "''starting''" "''running''"]
    serverState_errors [of "''running''" "''standby''"]
  by (simp add: state_consts)

end
